theory Spec2Isabelle
  imports Main "HOL-Library.Word" "HOL-Library.Monad_Syntax"
begin

unbundle bit_operations_syntax

section \<open>Data model of leanloader.c\<close>

text \<open>
  The C types: \<open>u32\<close> and \<open>i32\<close> are 32-bit machine integers (arithmetic wraps,
  \<open>unat\<close> reads a value as unsigned, \<open>sint\<close> as two's complement). A \<open>ptr\<close> is an
  opaque address or handle; the null pointer is \<open>0\<close>. A file name is a string of 16-bit
  characters.
\<close>

type_synonym u32 = "32 word"
type_synonym i32 = "32 word"
type_synonym ptr = nat
type_synonym wstr = "16 word list"

record BitmapData =
  bd_w :: u32
  bd_h :: u32
  bd_stride :: i32
  bd_PixelFormat :: u32
  bd_ptr :: ptr
  bd_Reserved :: ptr

record leanloader_image_info =
  name :: wstr
  bd :: BitmapData
  gpbitmap :: ptr

record GdiplusStartupInput =
  GdiplusVersion :: u32
  DebugEventCallback :: ptr
  SuppressBackgroundThread :: u32
  SuppressExternalCodecs :: u32

record Rect =
  rect_x :: i32
  rect_y :: i32
  rect_w :: i32
  rect_h :: i32

text \<open>The single global \<open>env\<close>: module handles, the reference count and the resolved
  function pointers. \<open>env0\<close> is its static initialiser \<open>{0}\<close>.\<close>

record env_t =
  token :: ptr
  refcnt :: u32
  kernel32 :: ptr
  gdiplus :: ptr
  GetProcAddress :: ptr
  LoadLibraryA :: ptr
  FreeLibrary :: ptr
  GlobalAlloc :: ptr
  GlobalFree :: ptr
  GdipStartup :: ptr
  GdipShutdown :: ptr
  GdipCreateBitmapFromFile :: ptr
  GdipDisposeImage :: ptr
  GdipGetImageWidth :: ptr
  GdipGetImageHeight :: ptr
  GdipBitmapLockBits :: ptr
  GdipBitmapUnlockBits :: ptr

definition env0 :: env_t where
  "env0 = \<lparr>token = 0, refcnt = 0, kernel32 = 0, gdiplus = 0, GetProcAddress = 0,
     LoadLibraryA = 0, FreeLibrary = 0, GlobalAlloc = 0, GlobalFree = 0, GdipStartup = 0,
     GdipShutdown = 0, GdipCreateBitmapFromFile = 0, GdipDisposeImage = 0,
     GdipGetImageWidth = 0, GdipGetImageHeight = 0, GdipBitmapLockBits = 0,
     GdipBitmapUnlockBits = 0\<rparr>"

section \<open>The native collaborators\<close>

text \<open>
  Every function the loader calls lives outside the file: the two bootstrap functions of
  getprocaddress.c, four kernel functions and eight GDI+ functions. Each call is recorded
  as a \<open>call\<close>: the arguments passed, then what the function answered (its result, and for
  an output parameter the content it left in the pointee). A structure passed by address
  is recorded with its contents at the time of the call. \<open>FreeLibrary\<close> returns nothing,
  and the results of \<open>GlobalFree\<close>, \<open>GdiplusShutdown\<close> and \<open>GdipDisposeImage\<close> are
  ignored by the loader, so these four carry arguments only.
\<close>

datatype call =
    Call_get_kernel32_modulehandle ptr
  | Call_get_getprocaddress ptr ptr
  | Call_GetProcAddress ptr string ptr
  | Call_LoadLibraryA string ptr
  | Call_FreeLibrary ptr
  | Call_GlobalAlloc u32 u32 ptr
  | Call_GlobalFree ptr
  | Call_GdiplusStartup GdiplusStartupInput u32 ptr
  | Call_GdiplusShutdown ptr
  | Call_GdipCreateBitmapFromFile wstr u32 ptr
  | Call_GdipDisposeImage ptr
  | Call_GdipGetImageWidth ptr u32 u32
  | Call_GdipGetImageHeight ptr u32 u32
  | Call_GdipBitmapLockBits ptr Rect u32 u32 BitmapData u32 BitmapData
  | Call_GdipBitmapUnlockBits ptr BitmapData u32 BitmapData

text \<open>
  What the collaborators answer is a parameter of the model, the \<open>host\<close>. An answer may
  depend on the position of the call in the run (the number of calls made before it) and
  on the arguments; the loader itself is deterministic, so on a given run this covers
  every behaviour of the collaborators. A function with an output parameter gets the old
  content of the pointee and answers the new content next to its status, so a host may
  leave the pointee alone or overwrite it.
\<close>

record host =
  host_get_kernel32_modulehandle :: "nat \<Rightarrow> ptr"
  host_get_getprocaddress :: "nat \<Rightarrow> ptr \<Rightarrow> ptr"
  host_GetProcAddress :: "nat \<Rightarrow> ptr \<Rightarrow> string \<Rightarrow> ptr"
  host_LoadLibraryA :: "nat \<Rightarrow> string \<Rightarrow> ptr"
  host_GlobalAlloc :: "nat \<Rightarrow> u32 \<Rightarrow> u32 \<Rightarrow> ptr"
  host_GdiplusStartup :: "nat \<Rightarrow> ptr \<Rightarrow> GdiplusStartupInput \<Rightarrow> u32 \<times> ptr"
  host_GdipCreateBitmapFromFile :: "nat \<Rightarrow> wstr \<Rightarrow> ptr \<Rightarrow> u32 \<times> ptr"
  host_GdipGetImageWidth :: "nat \<Rightarrow> ptr \<Rightarrow> u32 \<Rightarrow> u32 \<times> u32"
  host_GdipGetImageHeight :: "nat \<Rightarrow> ptr \<Rightarrow> u32 \<Rightarrow> u32 \<times> u32"
  host_GdipBitmapLockBits ::
    "nat \<Rightarrow> ptr \<Rightarrow> Rect \<Rightarrow> u32 \<Rightarrow> u32 \<Rightarrow> BitmapData \<Rightarrow> u32 \<times> BitmapData"
  host_GdipBitmapUnlockBits :: "nat \<Rightarrow> ptr \<Rightarrow> BitmapData \<Rightarrow> u32 \<times> BitmapData"

text \<open>The program state: the global \<open>env\<close> and the calls made so far, oldest first.\<close>

record state =
  env :: env_t
  calls :: "call list"

text \<open>
  A call through a function pointer of \<open>env\<close>. The loader never checks a resolved pointer,
  so calling a null one is a branch of the model: the program crashes and the result is
  \<open>None\<close>. A non-null pointer stored by \<open>GetProcAddress(module, name)\<close> is taken to be the
  function of that name. \<open>via fp c\<close> calls through \<open>fp\<close> and records the call \<open>c\<close>.
\<close>

definition via :: "ptr \<Rightarrow> call \<Rightarrow> state \<Rightarrow> state option" where
  "via fp c s = (if fp = 0 then None else Some (s\<lparr>calls := calls s @ [c]\<rparr>))"

text \<open>The two functions of getprocaddress.c are called by name, not through \<open>env\<close>.\<close>

definition get_kernel32_modulehandle :: "host \<Rightarrow> state \<Rightarrow> ptr \<times> state" where
  "get_kernel32_modulehandle H s =
     (let k = host_get_kernel32_modulehandle H (length (calls s))
      in (k, s\<lparr>calls := calls s @ [Call_get_kernel32_modulehandle k]\<rparr>))"

definition get_getprocaddress :: "host \<Rightarrow> ptr \<Rightarrow> state \<Rightarrow> ptr \<times> state" where
  "get_getprocaddress H m s =
     (let g = host_get_getprocaddress H (length (calls s)) m
      in (g, s\<lparr>calls := calls s @ [Call_get_getprocaddress m g]\<rparr>))"

text \<open>
  One wrapper for each function pointer of \<open>env\<close>: \<open>env_X\<close> is the call \<open>env.X(...)\<close>.
  A function with an output parameter takes the pointee's old content and returns the
  new content next to the status; the caller stores it.
\<close>

definition env_GetProcAddress :: "host \<Rightarrow> ptr \<Rightarrow> string \<Rightarrow> state \<Rightarrow> (ptr \<times> state) option" where
  "env_GetProcAddress H m n s = do {
     let p = host_GetProcAddress H (length (calls s)) m n;
     s' \<leftarrow> via (GetProcAddress (env s)) (Call_GetProcAddress m n p) s;
     Some (p, s')
   }"

definition env_LoadLibraryA :: "host \<Rightarrow> string \<Rightarrow> state \<Rightarrow> (ptr \<times> state) option" where
  "env_LoadLibraryA H n s = do {
     let m = host_LoadLibraryA H (length (calls s)) n;
     s' \<leftarrow> via (LoadLibraryA (env s)) (Call_LoadLibraryA n m) s;
     Some (m, s')
   }"

definition env_FreeLibrary :: "ptr \<Rightarrow> state \<Rightarrow> state option" where
  "env_FreeLibrary m s = via (FreeLibrary (env s)) (Call_FreeLibrary m) s"

definition env_GlobalAlloc :: "host \<Rightarrow> u32 \<Rightarrow> u32 \<Rightarrow> state \<Rightarrow> (ptr \<times> state) option" where
  "env_GlobalAlloc H flags n s = do {
     let a = host_GlobalAlloc H (length (calls s)) flags n;
     s' \<leftarrow> via (GlobalAlloc (env s)) (Call_GlobalAlloc flags n a) s;
     Some (a, s')
   }"

definition env_GlobalFree :: "ptr \<Rightarrow> state \<Rightarrow> state option" where
  "env_GlobalFree a s = via (GlobalFree (env s)) (Call_GlobalFree a) s"

definition env_GdipStartup ::
  "host \<Rightarrow> ptr \<Rightarrow> GdiplusStartupInput \<Rightarrow> state \<Rightarrow> ((u32 \<times> ptr) \<times> state) option" where
  "env_GdipStartup H old input s = do {
     let (status, t) = host_GdiplusStartup H (length (calls s)) old input;
     s' \<leftarrow> via (GdipStartup (env s)) (Call_GdiplusStartup input status t) s;
     Some ((status, t), s')
   }"

definition env_GdipShutdown :: "ptr \<Rightarrow> state \<Rightarrow> state option" where
  "env_GdipShutdown t s = via (GdipShutdown (env s)) (Call_GdiplusShutdown t) s"

definition env_GdipCreateBitmapFromFile ::
  "host \<Rightarrow> wstr \<Rightarrow> ptr \<Rightarrow> state \<Rightarrow> ((u32 \<times> ptr) \<times> state) option" where
  "env_GdipCreateBitmapFromFile H filename old s = do {
     let (status, b) = host_GdipCreateBitmapFromFile H (length (calls s)) filename old;
     s' \<leftarrow> via (GdipCreateBitmapFromFile (env s)) (Call_GdipCreateBitmapFromFile filename status b) s;
     Some ((status, b), s')
   }"

definition env_GdipDisposeImage :: "ptr \<Rightarrow> state \<Rightarrow> state option" where
  "env_GdipDisposeImage b s = via (GdipDisposeImage (env s)) (Call_GdipDisposeImage b) s"

definition env_GdipGetImageWidth ::
  "host \<Rightarrow> ptr \<Rightarrow> u32 \<Rightarrow> state \<Rightarrow> ((u32 \<times> u32) \<times> state) option" where
  "env_GdipGetImageWidth H b old s = do {
     let (status, w) = host_GdipGetImageWidth H (length (calls s)) b old;
     s' \<leftarrow> via (GdipGetImageWidth (env s)) (Call_GdipGetImageWidth b status w) s;
     Some ((status, w), s')
   }"

definition env_GdipGetImageHeight ::
  "host \<Rightarrow> ptr \<Rightarrow> u32 \<Rightarrow> state \<Rightarrow> ((u32 \<times> u32) \<times> state) option" where
  "env_GdipGetImageHeight H b old s = do {
     let (status, h) = host_GdipGetImageHeight H (length (calls s)) b old;
     s' \<leftarrow> via (GdipGetImageHeight (env s)) (Call_GdipGetImageHeight b status h) s;
     Some ((status, h), s')
   }"

definition env_GdipBitmapLockBits ::
  "host \<Rightarrow> ptr \<Rightarrow> Rect \<Rightarrow> u32 \<Rightarrow> u32 \<Rightarrow> BitmapData \<Rightarrow> state
     \<Rightarrow> ((u32 \<times> BitmapData) \<times> state) option" where
  "env_GdipBitmapLockBits H b rect flags format old s = do {
     let (status, d) = host_GdipBitmapLockBits H (length (calls s)) b rect flags format old;
     s' \<leftarrow> via (GdipBitmapLockBits (env s))
             (Call_GdipBitmapLockBits b rect flags format old status d) s;
     Some ((status, d), s')
   }"

definition env_GdipBitmapUnlockBits ::
  "host \<Rightarrow> ptr \<Rightarrow> BitmapData \<Rightarrow> state \<Rightarrow> ((u32 \<times> BitmapData) \<times> state) option" where
  "env_GdipBitmapUnlockBits H b old s = do {
     let (status, d) = host_GdipBitmapUnlockBits H (length (calls s)) b old;
     s' \<leftarrow> via (GdipBitmapUnlockBits (env s)) (Call_GdipBitmapUnlockBits b old status d) s;
     Some ((status, d), s')
   }"

section \<open>The Binding Registry\<close>

definition leanloader_env_init :: "host \<Rightarrow> state \<Rightarrow> (u32 \<times> state) option" where
  "leanloader_env_init H s0 =
    (if refcnt (env s0) = 0 then do {
       let (k, s) = get_kernel32_modulehandle H s0;
       let s = s\<lparr>env := (env s)\<lparr>kernel32 := k\<rparr>\<rparr>;
       let (g, s) = get_getprocaddress H (kernel32 (env s)) s;
       let s = s\<lparr>env := (env s)\<lparr>GetProcAddress := g\<rparr>\<rparr>;
       (p, s) \<leftarrow> env_GetProcAddress H (kernel32 (env s)) ''LoadLibraryA'' s;
       let s = s\<lparr>env := (env s)\<lparr>LoadLibraryA := p\<rparr>\<rparr>;
       (p, s) \<leftarrow> env_GetProcAddress H (kernel32 (env s)) ''FreeLibrary'' s;
       let s = s\<lparr>env := (env s)\<lparr>FreeLibrary := p\<rparr>\<rparr>;
       (p, s) \<leftarrow> env_GetProcAddress H (kernel32 (env s)) ''GlobalAlloc'' s;
       let s = s\<lparr>env := (env s)\<lparr>GlobalAlloc := p\<rparr>\<rparr>;
       (p, s) \<leftarrow> env_GetProcAddress H (kernel32 (env s)) ''GlobalFree'' s;
       let s = s\<lparr>env := (env s)\<lparr>GlobalFree := p\<rparr>\<rparr>;
       (m, s) \<leftarrow> env_LoadLibraryA H ''gdiplus.dll'' s;
       let s = s\<lparr>env := (env s)\<lparr>gdiplus := m\<rparr>\<rparr>;
       if gdiplus (env s) \<noteq> 0 then do {
         (p, s) \<leftarrow> env_GetProcAddress H (gdiplus (env s)) ''GdiplusStartup'' s;
         let s = s\<lparr>env := (env s)\<lparr>GdipStartup := p\<rparr>\<rparr>;
         (p, s) \<leftarrow> env_GetProcAddress H (gdiplus (env s)) ''GdiplusShutdown'' s;
         let s = s\<lparr>env := (env s)\<lparr>GdipShutdown := p\<rparr>\<rparr>;
         (p, s) \<leftarrow> env_GetProcAddress H (gdiplus (env s)) ''GdipCreateBitmapFromFile'' s;
         let s = s\<lparr>env := (env s)\<lparr>GdipCreateBitmapFromFile := p\<rparr>\<rparr>;
         (p, s) \<leftarrow> env_GetProcAddress H (gdiplus (env s)) ''GdipDisposeImage'' s;
         let s = s\<lparr>env := (env s)\<lparr>GdipDisposeImage := p\<rparr>\<rparr>;
         (p, s) \<leftarrow> env_GetProcAddress H (gdiplus (env s)) ''GdipGetImageWidth'' s;
         let s = s\<lparr>env := (env s)\<lparr>GdipGetImageWidth := p\<rparr>\<rparr>;
         (p, s) \<leftarrow> env_GetProcAddress H (gdiplus (env s)) ''GdipGetImageHeight'' s;
         let s = s\<lparr>env := (env s)\<lparr>GdipGetImageHeight := p\<rparr>\<rparr>;
         (p, s) \<leftarrow> env_GetProcAddress H (gdiplus (env s)) ''GdipBitmapLockBits'' s;
         let s = s\<lparr>env := (env s)\<lparr>GdipBitmapLockBits := p\<rparr>\<rparr>;
         (p, s) \<leftarrow> env_GetProcAddress H (gdiplus (env s)) ''GdipBitmapUnlockBits'' s;
         let s = s\<lparr>env := (env s)\<lparr>GdipBitmapUnlockBits := p\<rparr>\<rparr>;
         let input = \<lparr>GdiplusVersion = 1, DebugEventCallback = 0,
                        SuppressBackgroundThread = 0, SuppressExternalCodecs = 0\<rparr>;
         ((status, t), s) \<leftarrow> env_GdipStartup H (token (env s)) input s;
         let s = s\<lparr>env := (env s)\<lparr>token := t\<rparr>\<rparr>;
         if status = 0 then do {
           let s = s\<lparr>env := (env s)\<lparr>refcnt := refcnt (env s) + 1\<rparr>\<rparr>;
           Some (refcnt (env s), s)
         } else do {
           s \<leftarrow> env_FreeLibrary (gdiplus (env s)) s;
           Some (refcnt (env s), s)
         }
       } else Some (refcnt (env s), s)
     } else do {
       let s = s0\<lparr>env := (env s0)\<lparr>refcnt := refcnt (env s0) + 1\<rparr>\<rparr>;
       Some (refcnt (env s), s)
     })"

definition leanloader_env_deinit :: "state \<Rightarrow> (u32 \<times> state) option" where
  "leanloader_env_deinit s0 =
    (if refcnt (env s0) > 0 then do {
       let s = s0\<lparr>env := (env s0)\<lparr>refcnt := refcnt (env s0) - 1\<rparr>\<rparr>;
       if refcnt (env s) = 0 then do {
         s \<leftarrow> env_GdipShutdown (token (env s)) s;
         s \<leftarrow> env_FreeLibrary (gdiplus (env s)) s;
         Some (refcnt (env s), s)
       } else Some (refcnt (env s), s)
     } else Some (refcnt (env s0), s0))"

section \<open>The Image Acquisition Protocol\<close>

text \<open>The size handed to the allocator, \<open>(w * h * 4) + 63 & ~63\<close> in \<open>u32\<close> arithmetic
  (in C, \<open>+\<close> binds tighter than \<open>&\<close>).\<close>

definition allocSize :: "u32 \<Rightarrow> u32 \<Rightarrow> u32" where
  "allocSize w h = ((w * h * 4) + 63) AND NOT 63"

definition GPTR :: u32 where "GPTR = 0x0040"
definition ImageLockModeRead :: u32 where "ImageLockModeRead = 0x0001"
definition ImageLockModeWrite :: u32 where "ImageLockModeWrite = 0x0002"
definition ImageLockModeUserInputBuf :: u32 where "ImageLockModeUserInputBuf = 0x0004"
definition PixelFormat32bppARGB :: u32 where "PixelFormat32bppARGB = 0x0026200a"

text \<open>
  \<open>leanloader_load\<close>. The nested block of the measure, allocate and lock stages either
  leaves the function through \<open>return 1\<close> (modelled by the flag \<open>True\<close>) or falls through
  to the \<open>GdipDisposeImage\<close> call that follows it.
\<close>

definition leanloader_load ::
  "host \<Rightarrow> leanloader_image_info \<Rightarrow> state \<Rightarrow> ((i32 \<times> leanloader_image_info) \<times> state) option" where
  "leanloader_load H info0 s0 = do {
     let info = info0\<lparr>gpbitmap := 0\<rparr>;
     (r, s) \<leftarrow> leanloader_env_init H s0;
     if r \<noteq> 0 then do {
       ((status, b), s) \<leftarrow> env_GdipCreateBitmapFromFile H (name info) (gpbitmap info) s;
       let info = info\<lparr>gpbitmap := b\<rparr>;
       if status = 0 then do {
         (returned, info, s) \<leftarrow> do {
           ((status, w), s) \<leftarrow> env_GdipGetImageWidth H (gpbitmap info) (bd_w (bd info)) s;
           let info = info\<lparr>bd := (bd info)\<lparr>bd_w := w\<rparr>\<rparr>;
           if status = 0 then do {
             ((status, h), s) \<leftarrow> env_GdipGetImageHeight H (gpbitmap info) (bd_h (bd info)) s;
             let info = info\<lparr>bd := (bd info)\<lparr>bd_h := h\<rparr>\<rparr>;
             if status = 0 then do {
               (a, s) \<leftarrow> env_GlobalAlloc H GPTR (allocSize (bd_w (bd info)) (bd_h (bd info))) s;
               let info = info\<lparr>bd := (bd info)\<lparr>bd_ptr := a\<rparr>\<rparr>;
               if bd_ptr (bd info) \<noteq> 0 then do {
                 let flags = ImageLockModeRead OR ImageLockModeWrite OR ImageLockModeUserInputBuf;
                 let info = info\<lparr>bd := (bd info)\<lparr>bd_PixelFormat := PixelFormat32bppARGB\<rparr>\<rparr>;
                 let info = info\<lparr>bd := (bd info)\<lparr>bd_stride := bd_w (bd info) * 4\<rparr>\<rparr>;
                 let rect = \<lparr>rect_x = 0, rect_y = 0, rect_w = bd_w (bd info), rect_h = bd_h (bd info)\<rparr>;
                 ((status, d), s) \<leftarrow> env_GdipBitmapLockBits H (gpbitmap info) rect flags
                                        PixelFormat32bppARGB (bd info) s;
                 let info = info\<lparr>bd := d\<rparr>;
                 if status = 0 then Some (True, info, s)
                 else do {
                   s \<leftarrow> env_GlobalFree (bd_ptr (bd info)) s;
                   Some (False, info, s)
                 }
               } else Some (False, info, s)
             } else Some (False, info, s)
           } else Some (False, info, s)
         };
         if returned then Some ((1, info), s)
         else do {
           s \<leftarrow> env_GdipDisposeImage (gpbitmap info) s;
           Some ((0, info), s)
         }
       } else Some ((0, info), s)
     } else Some ((0, info), s)
   }"

text \<open>\<open>leanloader_dispose\<close>: the buffer branch is nested inside the image branch.\<close>

definition leanloader_dispose ::
  "host \<Rightarrow> leanloader_image_info \<Rightarrow> state \<Rightarrow> ((i32 \<times> leanloader_image_info) \<times> state) option" where
  "leanloader_dispose H info s = do {
     (info, s) \<leftarrow>
       (if gpbitmap info \<noteq> 0 then do {
          (info, s) \<leftarrow>
            (if bd_ptr (bd info) \<noteq> 0 then do {
               ((status, d), s) \<leftarrow> env_GdipBitmapUnlockBits H (gpbitmap info) (bd info) s;
               let info = info\<lparr>bd := d\<rparr>;
               s \<leftarrow> env_GlobalFree (bd_ptr (bd info)) s;
               let info = info\<lparr>bd := (bd info)\<lparr>bd_ptr := 0\<rparr>\<rparr>;
               Some (info, s)
             } else Some (info, s));
          s \<leftarrow> env_GdipDisposeImage (gpbitmap info) s;
          let info = info\<lparr>gpbitmap := 0\<rparr>;
          Some (info, s)
        } else Some (info, s));
     (r, s) \<leftarrow> leanloader_env_deinit s;
     Some ((0, info), s)
   }"

section \<open>Observations on the call record\<close>

text \<open>The calls a run adds to the record, given the states before and after it.\<close>

definition new_calls :: "state \<Rightarrow> state \<Rightarrow> call list" where
  "new_calls s s' = drop (length (calls s)) (calls s')"

fun is_startup :: "call \<Rightarrow> bool" where
  "is_startup (Call_GdiplusStartup _ _ _) = True"
| "is_startup _ = False"

fun is_shutdown :: "call \<Rightarrow> bool" where
  "is_shutdown (Call_GdiplusShutdown _) = True"
| "is_shutdown _ = False"

definition startups :: "call list \<Rightarrow> nat" where
  "startups cs = length (filter is_startup cs)"

definition shutdowns :: "call list \<Rightarrow> nat" where
  "shutdowns cs = length (filter is_shutdown cs)"

text \<open>The kinds of call that binding the registry can make.\<close>

fun is_binding :: "call \<Rightarrow> bool" where
  "is_binding (Call_get_kernel32_modulehandle _) = True"
| "is_binding (Call_get_getprocaddress _ _) = True"
| "is_binding (Call_GetProcAddress _ _ _) = True"
| "is_binding (Call_LoadLibraryA _ _) = True"
| "is_binding (Call_GdiplusStartup _ _ _) = True"
| "is_binding (Call_FreeLibrary _) = True"
| "is_binding _ = False"

text \<open>The native calls that give up an image or its buffer: unlock-bits, raw-free and
  dispose-image.\<close>

fun on_image_or_buffer :: "call \<Rightarrow> bool" where
  "on_image_or_buffer (Call_GdipBitmapUnlockBits _ _ _ _) = True"
| "on_image_or_buffer (Call_GlobalFree _) = True"
| "on_image_or_buffer (Call_GdipDisposeImage _) = True"
| "on_image_or_buffer _ = False"


text \<open>All twelve entry points that the loader calls through \<open>env\<close> are resolved.\<close>

definition all_resolved :: "env_t \<Rightarrow> bool" where
  "all_resolved e \<longleftrightarrow>
     LoadLibraryA e \<noteq> 0 \<and> FreeLibrary e \<noteq> 0 \<and> GlobalAlloc e \<noteq> 0 \<and> GlobalFree e \<noteq> 0 \<and>
     GdipStartup e \<noteq> 0 \<and> GdipShutdown e \<noteq> 0 \<and> GdipCreateBitmapFromFile e \<noteq> 0 \<and>
     GdipDisposeImage e \<noteq> 0 \<and> GdipGetImageWidth e \<noteq> 0 \<and> GdipGetImageHeight e \<noteq> 0 \<and>
     GdipBitmapLockBits e \<noteq> 0 \<and> GdipBitmapUnlockBits e \<noteq> 0"

section \<open>What the two entry points do, call by call\<close>

text \<open>
  The calls of a registry release from the registry state \<open>e\<close>: shutdown and module
  unload when the count goes from 1 to 0, nothing otherwise.
\<close>

definition release_calls :: "env_t \<Rightarrow> call list" where
  "release_calls e =
     (if refcnt e = 1 then [Call_GdiplusShutdown (token e), Call_FreeLibrary (gdiplus e)] else [])"

text \<open>
  The calls of a disposal before the registry release, and the handle it leaves, where
  \<open>status\<close> and \<open>d\<close> are what unlock-bits answers and leaves in the BitmapData block.
  Nothing happens to a handle without an image, whatever its buffer pointer is.
\<close>

definition teardown_calls :: "leanloader_image_info \<Rightarrow> u32 \<Rightarrow> BitmapData \<Rightarrow> call list" where
  "teardown_calls info status d =
     (if gpbitmap info = 0 then []
      else (if bd_ptr (bd info) = 0 then []
            else [Call_GdipBitmapUnlockBits (gpbitmap info) (bd info) status d,
                  Call_GlobalFree (bd_ptr d)])
           @ [Call_GdipDisposeImage (gpbitmap info)])"

definition disposed_handle :: "leanloader_image_info \<Rightarrow> BitmapData \<Rightarrow> leanloader_image_info" where
  "disposed_handle info d =
     (if gpbitmap info = 0 then info
      else (if bd_ptr (bd info) = 0 then info else info\<lparr>bd := d\<lparr>bd_ptr := 0\<rparr>\<rparr>)\<lparr>gpbitmap := 0\<rparr>)"

text \<open>
  The BitmapData block that \<open>leanloader_load\<close> hands to lock-bits, for measured width
  \<open>w\<close>, height \<open>h\<close> and buffer \<open>a\<close>.
\<close>

definition lock_block :: "BitmapData \<Rightarrow> u32 \<Rightarrow> u32 \<Rightarrow> ptr \<Rightarrow> BitmapData" where
  "lock_block b w h a =
     b\<lparr>bd_w := w, bd_h := h, bd_stride := w * 4, bd_PixelFormat := PixelFormat32bppARGB,
       bd_ptr := a\<rparr>"

definition lock_rect :: "u32 \<Rightarrow> u32 \<Rightarrow> Rect" where
  "lock_rect w h = \<lparr>rect_x = 0, rect_y = 0, rect_w = w, rect_h = h\<rparr>"

text \<open>
  The paths through \<open>leanloader_load\<close> once the registry is ready: \<open>load_path info r info' cs\<close>
  says that from the handle \<open>info\<close> the function returns \<open>r\<close>, leaves the handle \<open>info'\<close>
  and makes the calls \<open>cs\<close>. One rule for each stage that can fail, one for success.
\<close>

inductive load_path ::
  "leanloader_image_info \<Rightarrow> i32 \<Rightarrow> leanloader_image_info \<Rightarrow> call list \<Rightarrow> bool"
  for info :: leanloader_image_info where
  decode_failed:
    "st \<noteq> 0 \<Longrightarrow>
     load_path info 0 (info\<lparr>gpbitmap := b\<rparr>)
       [Call_GdipCreateBitmapFromFile (name info) st b]"
| width_failed:
    "st \<noteq> 0 \<Longrightarrow>
     load_path info 0 (info\<lparr>gpbitmap := b, bd := (bd info)\<lparr>bd_w := w\<rparr>\<rparr>)
       [Call_GdipCreateBitmapFromFile (name info) 0 b,
        Call_GdipGetImageWidth b st w,
        Call_GdipDisposeImage b]"
| height_failed:
    "st \<noteq> 0 \<Longrightarrow>
     load_path info 0 (info\<lparr>gpbitmap := b, bd := (bd info)\<lparr>bd_w := w, bd_h := h\<rparr>\<rparr>)
       [Call_GdipCreateBitmapFromFile (name info) 0 b,
        Call_GdipGetImageWidth b 0 w,
        Call_GdipGetImageHeight b st h,
        Call_GdipDisposeImage b]"
| alloc_failed:
    "load_path info 0 (info\<lparr>gpbitmap := b, bd := (bd info)\<lparr>bd_w := w, bd_h := h, bd_ptr := 0\<rparr>\<rparr>)
       [Call_GdipCreateBitmapFromFile (name info) 0 b,
        Call_GdipGetImageWidth b 0 w,
        Call_GdipGetImageHeight b 0 h,
        Call_GlobalAlloc GPTR (allocSize w h) 0,
        Call_GdipDisposeImage b]"
| lock_failed:
    "a \<noteq> 0 \<Longrightarrow> st \<noteq> 0 \<Longrightarrow>
     load_path info 0 (info\<lparr>gpbitmap := b, bd := d\<rparr>)
       [Call_GdipCreateBitmapFromFile (name info) 0 b,
        Call_GdipGetImageWidth b 0 w,
        Call_GdipGetImageHeight b 0 h,
        Call_GlobalAlloc GPTR (allocSize w h) a,
        Call_GdipBitmapLockBits b (lock_rect w h) 7 PixelFormat32bppARGB
          (lock_block (bd info) w h a) st d,
        Call_GlobalFree (bd_ptr d),
        Call_GdipDisposeImage b]"
| loaded:
    "a \<noteq> 0 \<Longrightarrow>
     load_path info 1 (info\<lparr>gpbitmap := b, bd := d\<rparr>)
       [Call_GdipCreateBitmapFromFile (name info) 0 b,
        Call_GdipGetImageWidth b 0 w,
        Call_GdipGetImageHeight b 0 h,
        Call_GlobalAlloc GPTR (allocSize w h) a,
        Call_GdipBitmapLockBits b (lock_rect w h) 7 PixelFormat32bppARGB
          (lock_block (bd info) w h a) 0 d]"

section \<open>Sequences of registry operations\<close>





section \<open>Example hosts\<close>

text \<open>
  A host on which everything succeeds: every symbol resolves, the module loads, startup
  answers status 0, and the file decodes to a 10 by 10 image. Lock and unlock leave the
  BitmapData block as they find it. The other hosts differ from it in one answer each.
\<close>

definition host_ok :: host where
  "host_ok = \<lparr>host_get_kernel32_modulehandle = (\<lambda>_. 100),
     host_get_getprocaddress = (\<lambda>_ _. 101),
     host_GetProcAddress = (\<lambda>_ _ _. 200),
     host_LoadLibraryA = (\<lambda>_ _. 300),
     host_GlobalAlloc = (\<lambda>_ _ _. 400),
     host_GdiplusStartup = (\<lambda>_ _ _. (0, 500)),
     host_GdipCreateBitmapFromFile = (\<lambda>_ _ _. (0, 600)),
     host_GdipGetImageWidth = (\<lambda>_ _ _. (0, 10)),
     host_GdipGetImageHeight = (\<lambda>_ _ _. (0, 10)),
     host_GdipBitmapLockBits = (\<lambda>_ _ _ _ _ d. (0, d)),
     host_GdipBitmapUnlockBits = (\<lambda>_ _ d. (0, d))\<rparr>"

text \<open>The file is not found: decoding answers status 10 and leaves the pointee alone.\<close>

definition host_nofile :: host where
  "host_nofile = host_ok\<lparr>host_GdipCreateBitmapFromFile := (\<lambda>_ _ old. (10, old))\<rparr>"

text \<open>Lock-bits refuses (status 2).\<close>

definition host_nolock :: host where
  "host_nolock = host_ok\<lparr>host_GdipBitmapLockBits := (\<lambda>_ _ _ _ _ d. (2, d))\<rparr>"

text \<open>One GDI+ symbol does not resolve.\<close>

definition host_nosym :: host where
  "host_nosym = host_ok\<lparr>host_GetProcAddress :=
     (\<lambda>_ _ n. if n = ''GdipCreateBitmapFromFile'' then 0 else 200)\<rparr>"

text \<open>A 40000 by 40000 image: 6400000000 bytes of pixels.\<close>

definition host_huge :: host where
  "host_huge = host_ok\<lparr>host_GdipGetImageWidth := (\<lambda>_ _ _. (0, 40000)),
     host_GdipGetImageHeight := (\<lambda>_ _ _. (0, 40000))\<rparr>"

text \<open>A zero-initialised handle naming the file \<open>a\<close>, and the program's initial state.\<close>

definition info_zero :: leanloader_image_info where
  "info_zero = \<lparr>name = [0x61],
     bd = \<lparr>bd_w = 0, bd_h = 0, bd_stride = 0, bd_PixelFormat = 0, bd_ptr = 0, bd_Reserved = 0\<rparr>,
     gpbitmap = 0\<rparr>"

definition state_init :: state where
  "state_init = \<lparr>env = env0, calls = []\<rparr>"

text \<open>
  What a first \<open>leanloader_env_init\<close> on \<open>host_ok\<close> leaves behind: the sixteen binding
  calls and the registry with count 1. Then the handle and the five calls of a successful
  \<open>leanloader_load\<close> of the 10 by 10 image.
\<close>

definition gdiplus_input :: GdiplusStartupInput where
  "gdiplus_input = \<lparr>GdiplusVersion = 1, DebugEventCallback = 0,
     SuppressBackgroundThread = 0, SuppressExternalCodecs = 0\<rparr>"

definition calls_bind_ok :: "call list" where
  "calls_bind_ok =
     [Call_get_kernel32_modulehandle 100,
      Call_get_getprocaddress 100 101,
      Call_GetProcAddress 100 ''LoadLibraryA'' 200,
      Call_GetProcAddress 100 ''FreeLibrary'' 200,
      Call_GetProcAddress 100 ''GlobalAlloc'' 200,
      Call_GetProcAddress 100 ''GlobalFree'' 200,
      Call_LoadLibraryA ''gdiplus.dll'' 300,
      Call_GetProcAddress 300 ''GdiplusStartup'' 200,
      Call_GetProcAddress 300 ''GdiplusShutdown'' 200,
      Call_GetProcAddress 300 ''GdipCreateBitmapFromFile'' 200,
      Call_GetProcAddress 300 ''GdipDisposeImage'' 200,
      Call_GetProcAddress 300 ''GdipGetImageWidth'' 200,
      Call_GetProcAddress 300 ''GdipGetImageHeight'' 200,
      Call_GetProcAddress 300 ''GdipBitmapLockBits'' 200,
      Call_GetProcAddress 300 ''GdipBitmapUnlockBits'' 200,
      Call_GdiplusStartup gdiplus_input 0 500]"

definition env_ready :: env_t where
  "env_ready = \<lparr>token = 500, refcnt = 1, kernel32 = 100, gdiplus = 300, GetProcAddress = 101,
     LoadLibraryA = 200, FreeLibrary = 200, GlobalAlloc = 200, GlobalFree = 200,
     GdipStartup = 200, GdipShutdown = 200, GdipCreateBitmapFromFile = 200,
     GdipDisposeImage = 200, GdipGetImageWidth = 200, GdipGetImageHeight = 200,
     GdipBitmapLockBits = 200, GdipBitmapUnlockBits = 200\<rparr>"

definition state_ready :: state where
  "state_ready = \<lparr>env = env_ready, calls = calls_bind_ok\<rparr>"

definition bd_ok :: BitmapData where
  "bd_ok = \<lparr>bd_w = 10, bd_h = 10, bd_stride = 40, bd_PixelFormat = 0x0026200a, bd_ptr = 400,
     bd_Reserved = 0\<rparr>"

definition info_ok :: leanloader_image_info where
  "info_ok = \<lparr>name = [0x61], bd = bd_ok, gpbitmap = 600\<rparr>"

definition calls_measure_ok :: "call list" where
  "calls_measure_ok =
     [Call_GdipCreateBitmapFromFile [0x61] 0 600,
      Call_GdipGetImageWidth 600 0 10,
      Call_GdipGetImageHeight 600 0 10,
      Call_GlobalAlloc 0x40 448 400]"

definition calls_load_ok :: "call list" where
  "calls_load_ok = calls_measure_ok @
     [Call_GdipBitmapLockBits 600 (lock_rect 10 10) 7 0x0026200a bd_ok 0 bd_ok]"

definition state_loaded :: state where
  "state_loaded = \<lparr>env = env_ready, calls = calls_bind_ok @ calls_load_ok\<rparr>"

text \<open>The same run on \<open>host_nolock\<close>: lock-bits answers 2, the buffer is freed and the
  image disposed, and the function returns 0.\<close>

definition calls_load_nolock :: "call list" where
  "calls_load_nolock = calls_measure_ok @
     [Call_GdipBitmapLockBits 600 (lock_rect 10 10) 7 0x0026200a bd_ok 2 bd_ok,
      Call_GlobalFree 400,
      Call_GdipDisposeImage 600]"

definition state_nolock :: state where
  "state_nolock = \<lparr>env = env_ready, calls = calls_bind_ok @ calls_load_nolock\<rparr>"

section \<open>Proof tools\<close>

text \<open>
  Unfolding a run call by call: the wrappers unfold to \<open>via\<close>, and the congruence rules
  keep the simplifier out of a continuation until the call before it has been decided.
\<close>

lemmas native_defs = env_GetProcAddress_def env_LoadLibraryA_def env_FreeLibrary_def
  env_GlobalAlloc_def env_GlobalFree_def env_GdipStartup_def env_GdipShutdown_def
  env_GdipCreateBitmapFromFile_def env_GdipDisposeImage_def env_GdipGetImageWidth_def
  env_GdipGetImageHeight_def env_GdipBitmapLockBits_def env_GdipBitmapUnlockBits_def
  get_kernel32_modulehandle_def get_getprocaddress_def via_def

lemma bind_weak_cong: "m = m' \<Longrightarrow> Option.bind m f = Option.bind m' f"
  by simp

lemmas weak_congs = bind_weak_cong let_weak_cong prod.case_cong_weak

lemmas load_consts = GPTR_def ImageLockModeRead_def ImageLockModeWrite_def
  ImageLockModeUserInputBuf_def PixelFormat32bppARGB_def allocSize_def

lemmas fixture_defs = host_ok_def host_nofile_def host_nolock_def host_nosym_def host_huge_def
  info_zero_def state_init_def env0_def gdiplus_input_def calls_bind_ok_def env_ready_def
  state_ready_def bd_ok_def info_ok_def calls_measure_ok_def calls_load_ok_def state_loaded_def
  calls_load_nolock_def state_nolock_def lock_rect_def

section \<open>The registry release and the disposal\<close>

lemma env_deinit_Some:
  assumes "leanloader_env_deinit s = Some (r, s')"
  shows "r = (if refcnt (env s) = 0 then 0 else refcnt (env s) - 1) \<and>
         env s' = (env s)\<lparr>refcnt := (if refcnt (env s) = 0 then 0 else refcnt (env s) - 1)\<rparr> \<and>
         calls s' = calls s @ release_calls (env s)"
  using assms
  by (auto simp add: leanloader_env_deinit_def Let_def native_defs release_calls_def
        word_greater_zero_iff split: if_splits prod.splits cong: weak_congs)

lemma dispose_effect:
  assumes "leanloader_dispose H info s = Some ((r, info'), s')"
  shows "case host_GdipBitmapUnlockBits H (length (calls s)) (gpbitmap info) (bd info) of
         (st, d) \<Rightarrow>
           calls s' = calls s @ teardown_calls info st d @ release_calls (env s) \<and>
           env s' = (env s)\<lparr>refcnt := (if refcnt (env s) = 0 then 0 else refcnt (env s) - 1)\<rparr> \<and>
           info' = disposed_handle info d \<and> r = 0"
  using assms unfolding leanloader_dispose_def
  by (auto simp add: Let_def native_defs teardown_calls_def disposed_handle_def bind_eq_Some_conv
        split: if_splits prod.splits cong: weak_congs dest!: env_deinit_Some)

text \<open>On a registry whose entry points are all resolved, a disposal returns.\<close>

lemma dispose_total:
  assumes "all_resolved (env s)"
  shows "\<exists>info' s'. leanloader_dispose H info s = Some ((0, info'), s')"
  using assms unfolding leanloader_dispose_def
  by (auto simp add: leanloader_env_deinit_def Let_def native_defs all_resolved_def
        split: if_splits prod.splits cong: weak_congs)

lemma dispose_keeps_resolved:
  assumes "leanloader_dispose H info s = Some ((r, info'), s')" and "all_resolved (env s)"
  shows "all_resolved (env s')"
  using dispose_effect [OF assms(1)] assms(2)
  by (auto simp: all_resolved_def split: prod.splits)



lemma dispose_ok:
  "leanloader_dispose host_ok info_ok state_loaded =
     Some ((0, info_ok\<lparr>bd := bd_ok\<lparr>bd_ptr := 0\<rparr>, gpbitmap := 0\<rparr>),
           \<lparr>env = env_ready\<lparr>refcnt := 0\<rparr>,
            calls = calls_bind_ok @ calls_load_ok @
              [Call_GdipBitmapUnlockBits 600 bd_ok 0 bd_ok, Call_GlobalFree 400,
               Call_GdipDisposeImage 600, Call_GdiplusShutdown 500, Call_FreeLibrary 300]\<rparr>)"
  by (simp add: leanloader_dispose_def leanloader_env_deinit_def Let_def native_defs
        state_loaded_def info_ok_def env_ready_def host_ok_def bd_ok_def cong: weak_congs)

lemma dispose_again_ok:
  "leanloader_dispose host_ok (info_ok\<lparr>bd := bd_ok\<lparr>bd_ptr := 0\<rparr>, gpbitmap := 0\<rparr>)
     \<lparr>env = env_ready\<lparr>refcnt := 0\<rparr>,
      calls = calls_bind_ok @ calls_load_ok @
        [Call_GdipBitmapUnlockBits 600 bd_ok 0 bd_ok, Call_GlobalFree 400,
         Call_GdipDisposeImage 600, Call_GdiplusShutdown 500, Call_FreeLibrary 300]\<rparr> =
   Some ((0, info_ok\<lparr>bd := bd_ok\<lparr>bd_ptr := 0\<rparr>, gpbitmap := 0\<rparr>),
     \<lparr>env = env_ready\<lparr>refcnt := 0\<rparr>,
      calls = calls_bind_ok @ calls_load_ok @
        [Call_GdipBitmapUnlockBits 600 bd_ok 0 bd_ok, Call_GlobalFree 400,
         Call_GdipDisposeImage 600, Call_GdiplusShutdown 500, Call_FreeLibrary 300]\<rparr>)"
  by (simp add: leanloader_dispose_def leanloader_env_deinit_def Let_def native_defs
        info_ok_def env_ready_def cong: weak_congs)

lemma dispose_unloaded:
  "leanloader_dispose host_ok info_zero state_loaded =
     Some ((0, info_zero),
           \<lparr>env = env_ready\<lparr>refcnt := 0\<rparr>,
            calls = calls_bind_ok @ calls_load_ok @
              [Call_GdiplusShutdown 500, Call_FreeLibrary 300]\<rparr>)"
  by (simp add: leanloader_dispose_def leanloader_env_deinit_def Let_def native_defs
        state_loaded_def info_zero_def env_ready_def cong: weak_congs)




text \<open>
  C8, as amended. A second \<open>leanloader_dispose\<close> on a handle that a first one has returned
  makes no unlock-bits, raw-free or dispose-image call: its calls are those of the registry
  release alone, and it leaves the handle as it found it. It finds \<open>gpbitmap\<close> null. It
  finds \<open>bd.ptr\<close> null too when the handle had an image, or a null \<open>bd.ptr\<close>, before the
  first disposal; a handle with \<open>gpbitmap\<close> null and \<open>bd.ptr\<close> non-null keeps its \<open>bd.ptr\<close>
  through both calls. On a registry whose entry points are resolved both calls return.
\<close>

theorem second_dispose_only_releases:
  "(all_resolved (env s) \<longrightarrow>
      (\<exists>info1 s1 info2 s2.
         leanloader_dispose H info s = Some ((0, info1), s1) \<and>
         leanloader_dispose H info1 s1 = Some ((0, info2), s2))) \<and>
   (\<forall>r1 info1 s1 r2 info2 s2.
      leanloader_dispose H info s = Some ((r1, info1), s1) \<longrightarrow>
      leanloader_dispose H info1 s1 = Some ((r2, info2), s2) \<longrightarrow>
        gpbitmap info1 = 0 \<and>
        (gpbitmap info \<noteq> 0 \<or> bd_ptr (bd info) = 0 \<longrightarrow> bd_ptr (bd info1) = 0) \<and>
        new_calls s1 s2 = release_calls (env s1) \<and>
        filter on_image_or_buffer (new_calls s1 s2) = [] \<and>
        info2 = info1)"
proof -
  have tot: "\<exists>info1 s1 info2 s2.
         leanloader_dispose H info s = Some ((0, info1), s1) \<and>
         leanloader_dispose H info1 s1 = Some ((0, info2), s2)"
    if a: "all_resolved (env s)"
  proof -
    from dispose_total [OF a] obtain info1 s1 where
      d1: "leanloader_dispose H info s = Some ((0, info1), s1)" by blast
    from dispose_keeps_resolved [OF d1 a] have "all_resolved (env s1)" .
    from dispose_total [OF this] obtain info2 s2 where
      "leanloader_dispose H info1 s1 = Some ((0, info2), s2)" by blast
    with d1 show ?thesis by blast
  qed
  have main: "gpbitmap info1 = 0 \<and>
        (gpbitmap info \<noteq> 0 \<or> bd_ptr (bd info) = 0 \<longrightarrow> bd_ptr (bd info1) = 0) \<and>
        new_calls s1 s2 = release_calls (env s1) \<and>
        filter on_image_or_buffer (new_calls s1 s2) = [] \<and>
        info2 = info1"
    if d1: "leanloader_dispose H info s = Some ((r1, info1), s1)"
      and d2: "leanloader_dispose H info1 s1 = Some ((r2, info2), s2)"
    for r1 info1 s1 r2 info2 s2
  proof -
    have 1: "gpbitmap info1 = 0"
      and 2: "gpbitmap info \<noteq> 0 \<or> bd_ptr (bd info) = 0 \<longrightarrow> bd_ptr (bd info1) = 0"
      using dispose_effect [OF d1]
      by (auto simp: disposed_handle_def split: prod.splits if_splits)
    have 3: "new_calls s1 s2 = release_calls (env s1)" and 4: "info2 = info1"
      using dispose_effect [OF d2] 1
      by (auto simp: disposed_handle_def teardown_calls_def new_calls_def split: prod.splits)
    have 5: "filter on_image_or_buffer (release_calls (env s1)) = []"
      by (simp add: release_calls_def)
    from 1 2 3 4 5 show ?thesis by simp
  qed
  from tot main show ?thesis by blast
qed

theorem second_dispose_only_releases_witness:
  "all_resolved (env state_loaded) \<and>
   leanloader_dispose host_ok info_ok state_loaded =
     Some ((0, info_ok\<lparr>bd := bd_ok\<lparr>bd_ptr := 0\<rparr>, gpbitmap := 0\<rparr>),
           \<lparr>env = env_ready\<lparr>refcnt := 0\<rparr>,
            calls = calls_bind_ok @ calls_load_ok @
              [Call_GdipBitmapUnlockBits 600 bd_ok 0 bd_ok, Call_GlobalFree 400,
               Call_GdipDisposeImage 600, Call_GdiplusShutdown 500, Call_FreeLibrary 300]\<rparr>) \<and>
   leanloader_dispose host_ok (info_ok\<lparr>bd := bd_ok\<lparr>bd_ptr := 0\<rparr>, gpbitmap := 0\<rparr>)
     \<lparr>env = env_ready\<lparr>refcnt := 0\<rparr>,
      calls = calls_bind_ok @ calls_load_ok @
        [Call_GdipBitmapUnlockBits 600 bd_ok 0 bd_ok, Call_GlobalFree 400,
         Call_GdipDisposeImage 600, Call_GdiplusShutdown 500, Call_FreeLibrary 300]\<rparr> =
     Some ((0, info_ok\<lparr>bd := bd_ok\<lparr>bd_ptr := 0\<rparr>, gpbitmap := 0\<rparr>),
       \<lparr>env = env_ready\<lparr>refcnt := 0\<rparr>,
        calls = calls_bind_ok @ calls_load_ok @
          [Call_GdipBitmapUnlockBits 600 bd_ok 0 bd_ok, Call_GlobalFree 400,
           Call_GdipDisposeImage 600, Call_GdiplusShutdown 500, Call_FreeLibrary 300]\<rparr>) \<and>
   gpbitmap info_ok = 600 \<and> bd_ptr (bd info_ok) = 400 \<and>
   gpbitmap (info_ok\<lparr>bd := bd_ok\<lparr>bd_ptr := 0\<rparr>, gpbitmap := 0\<rparr>) = 0 \<and>
   bd_ptr (bd (info_ok\<lparr>bd := bd_ok\<lparr>bd_ptr := 0\<rparr>, gpbitmap := 0\<rparr>)) = 0 \<and>
   release_calls (env_ready\<lparr>refcnt := 0\<rparr>) = [] \<and>
   new_calls
     \<lparr>env = env_ready\<lparr>refcnt := 0\<rparr>,
      calls = calls_bind_ok @ calls_load_ok @
        [Call_GdipBitmapUnlockBits 600 bd_ok 0 bd_ok, Call_GlobalFree 400,
         Call_GdipDisposeImage 600, Call_GdiplusShutdown 500, Call_FreeLibrary 300]\<rparr>
     \<lparr>env = env_ready\<lparr>refcnt := 0\<rparr>,
      calls = calls_bind_ok @ calls_load_ok @
        [Call_GdipBitmapUnlockBits 600 bd_ok 0 bd_ok, Call_GlobalFree 400,
         Call_GdipDisposeImage 600, Call_GdiplusShutdown 500, Call_FreeLibrary 300]\<rparr> = []"
proof -
  have a: "all_resolved (env state_loaded)"
    by (simp add: all_resolved_def state_loaded_def env_ready_def)
  note t = second_dispose_only_releases [of state_loaded host_ok info_ok]
  from t [THEN conjunct1, rule_format, OF a] have e: "\<exists>info1 s1 info2 s2.
         leanloader_dispose host_ok info_ok state_loaded = Some ((0, info1), s1) \<and>
         leanloader_dispose host_ok info1 s1 = Some ((0, info2), s2)" .
  note k = t [THEN conjunct2, rule_format, OF dispose_ok dispose_again_ok]
  from a e k dispose_ok dispose_again_ok show ?thesis
    by (simp add: info_ok_def bd_ok_def release_calls_def env_ready_def)
qed

text \<open>
  C8 as stated fails on a handle whose \<open>bd.ptr\<close> is non-null while \<open>gpbitmap\<close> is null: the
  first disposal leaves \<open>bd.ptr\<close> at 400, so the second call does not find it null (and
  leaves it at 400 as well).
\<close>

theorem second_dispose_finds_buffer_pointer:
  "leanloader_dispose host_ok (info_zero\<lparr>bd := bd_ok\<rparr>) state_ready =
     Some ((0, info_zero\<lparr>bd := bd_ok\<rparr>),
           \<lparr>env = env_ready\<lparr>refcnt := 0\<rparr>,
            calls = calls_bind_ok @ [Call_GdiplusShutdown 500, Call_FreeLibrary 300]\<rparr>) \<and>
   leanloader_dispose host_ok (info_zero\<lparr>bd := bd_ok\<rparr>)
     \<lparr>env = env_ready\<lparr>refcnt := 0\<rparr>,
      calls = calls_bind_ok @ [Call_GdiplusShutdown 500, Call_FreeLibrary 300]\<rparr> =
     Some ((0, info_zero\<lparr>bd := bd_ok\<rparr>),
           \<lparr>env = env_ready\<lparr>refcnt := 0\<rparr>,
            calls = calls_bind_ok @ [Call_GdiplusShutdown 500, Call_FreeLibrary 300]\<rparr>) \<and>
   bd_ptr (bd (info_zero\<lparr>bd := bd_ok\<rparr>)) = 400"
  by (simp add: leanloader_dispose_def leanloader_env_deinit_def Let_def native_defs
        state_ready_def info_zero_def env_ready_def host_ok_def bd_ok_def cong: weak_congs)

text \<open>
  C9. Whatever the handle holds, \<open>leanloader_dispose\<close> takes one off the registry's count
  when the count is positive and leaves it at 0 otherwise. When the count was 1 the
  shutdown entry point is called, also for a handle that was never loaded while another
  handle still holds its image. On a registry whose entry points are resolved the call
  returns, so the count does go down.
\<close>

theorem dispose_releases_whatever_the_handle:
  "(all_resolved (env s) \<longrightarrow>
      (\<exists>info' s'. leanloader_dispose H info s = Some ((0, info'), s'))) \<and>
   (\<forall>r info' s'.
      leanloader_dispose H info s = Some ((r, info'), s') \<longrightarrow>
        refcnt (env s') = (if refcnt (env s) = 0 then 0 else refcnt (env s) - 1) \<and>
        unat (refcnt (env s')) = unat (refcnt (env s)) - 1 \<and>
        (refcnt (env s) = 1 \<longrightarrow>
           Call_GdiplusShutdown (token (env s)) \<in> set (new_calls s s')))"
proof -
  have tot: "\<exists>info' s'. leanloader_dispose H info s = Some ((0, info'), s')"
    if "all_resolved (env s)"
    using that by (rule dispose_total)
  have main: "refcnt (env s') = (if refcnt (env s) = 0 then 0 else refcnt (env s) - 1) \<and>
        unat (refcnt (env s')) = unat (refcnt (env s)) - 1 \<and>
        (refcnt (env s) = 1 \<longrightarrow>
           Call_GdiplusShutdown (token (env s)) \<in> set (new_calls s s'))"
    if d: "leanloader_dispose H info s = Some ((r, info'), s')" for r info' s'
    using dispose_effect [OF d]
    by (auto simp: new_calls_def release_calls_def unat_minus_one split: prod.splits)
  from tot main show ?thesis by blast
qed

theorem dispose_releases_whatever_the_handle_witness:
  "all_resolved (env state_loaded) \<and>
   leanloader_dispose host_ok info_zero state_loaded =
     Some ((0, info_zero),
           \<lparr>env = env_ready\<lparr>refcnt := 0\<rparr>,
            calls = calls_bind_ok @ calls_load_ok @
              [Call_GdiplusShutdown 500, Call_FreeLibrary 300]\<rparr>) \<and>
   gpbitmap info_zero = 0 \<and> gpbitmap info_ok = 600 \<and> refcnt (env state_loaded) = 1 \<and>
   refcnt (env \<lparr>env = env_ready\<lparr>refcnt := 0\<rparr>,
                calls = calls_bind_ok @ calls_load_ok @
                  [Call_GdiplusShutdown 500, Call_FreeLibrary 300]\<rparr>) = 0 \<and>
   Call_GdiplusShutdown 500 \<in> set (new_calls state_loaded
      \<lparr>env = env_ready\<lparr>refcnt := 0\<rparr>,
       calls = calls_bind_ok @ calls_load_ok @
         [Call_GdiplusShutdown 500, Call_FreeLibrary 300]\<rparr>)"
proof -
  have a: "all_resolved (env state_loaded)"
    by (simp add: all_resolved_def state_loaded_def env_ready_def)
  note t = dispose_releases_whatever_the_handle [of state_loaded host_ok info_zero]
  from t [THEN conjunct1, rule_format, OF a]
  have e: "\<exists>info' s'. leanloader_dispose host_ok info_zero state_loaded = Some ((0, info'), s')" .
  note k = t [THEN conjunct2, rule_format, OF dispose_unloaded]
  from a e k dispose_unloaded show ?thesis
    by (simp add: info_zero_def info_ok_def state_loaded_def env_ready_def)
qed

section \<open>Binding the registry\<close>

lemma env_init_ready:
  "refcnt (env s) \<noteq> 0 \<Longrightarrow>
   leanloader_env_init H s =
     Some (refcnt (env s) + 1, s\<lparr>env := (env s)\<lparr>refcnt := refcnt (env s) + 1\<rparr>\<rparr>)"
  by (simp add: leanloader_env_init_def Let_def)

lemma env_init_first:
  assumes "refcnt (env s) = 0" and "leanloader_env_init H s = Some (r, s')"
  shows "refcnt (env s') = r \<and> (r = 0 \<or> r = 1) \<and>
         (\<exists>cs. calls s' = calls s @ cs \<and> list_all is_binding cs \<and> shutdowns cs = 0 \<and>
               startups cs \<le> 1 \<and> (r = 1 \<longrightarrow> startups cs = 1))"
  using assms
  by (auto simp add: leanloader_env_init_def Let_def native_defs startups_def shutdowns_def
        split: if_splits prod.splits cong: weak_congs)

lemma env_init_Some:
  assumes "leanloader_env_init H s = Some (r, s')"
  shows "refcnt (env s') = r \<and> (r \<noteq> 0 \<longrightarrow> r = refcnt (env s) + 1) \<and>
         (\<exists>cs. calls s' = calls s @ cs \<and> list_all is_binding cs)"
proof (cases "refcnt (env s) = 0")
  case True
  from env_init_first [OF True assms] show ?thesis using True by auto
next
  case False
  from env_init_ready [OF False, of H] assms show ?thesis by auto
qed

section \<open>Loading\<close>

lemma load_paths:
  assumes "leanloader_load H info s = Some ((r, info'), s')"
  shows "\<exists>r1 s1. leanloader_env_init H s = Some (r1, s1) \<and> env s' = env s1 \<and>
           (if r1 = 0 then r = 0 \<and> info' = info\<lparr>gpbitmap := 0\<rparr> \<and> s' = s1
            else \<exists>cs. calls s' = calls s1 @ cs \<and> load_path info r info' cs)"
proof (cases "leanloader_env_init H s")
  case None
  with assms show ?thesis by (simp add: leanloader_load_def)
next
  case (Some a)
  obtain r1 s1 where a: "a = (r1, s1)" by (cases a)
  show ?thesis
    using assms unfolding leanloader_load_def Some a
    by (auto simp add: Let_def native_defs load_path.simps lock_block_def lock_rect_def
          ImageLockModeRead_def ImageLockModeWrite_def ImageLockModeUserInputBuf_def
          split: if_splits prod.splits cong: weak_congs)
qed

text \<open>
  A first initialization on a host that resolves every symbol: it returns, it fails only
  when the module does not load or startup refuses, and success leaves every entry point
  resolved.
\<close>

lemma env_init_resolving:
  assumes "refcnt (env s) = 0"
    and "\<forall>i m. host_get_getprocaddress H i m \<noteq> 0"
    and "\<forall>i m n. host_GetProcAddress H i m n \<noteq> 0"
  shows "\<exists>r s'. leanloader_env_init H s = Some (r, s') \<and> refcnt (env s') = r \<and>
           (r = 0 \<or> r = 1 \<and> all_resolved (env s')) \<and>
           (r = 0 \<longleftrightarrow>
              Call_LoadLibraryA ''gdiplus.dll'' 0 \<in> set (new_calls s s') \<or>
              (\<exists>st t. st \<noteq> 0 \<and> Call_GdiplusStartup gdiplus_input st t \<in> set (new_calls s s')))"
proof -
  have g: "\<And>i m. 0 < host_get_getprocaddress H i m" using assms(2) by simp
  have p: "\<And>i m n. 0 < host_GetProcAddress H i m n" using assms(3) by simp
  show ?thesis
    using assms(1)
    by (auto simp add: g p assms(2,3) leanloader_env_init_def Let_def native_defs
          all_resolved_def new_calls_def gdiplus_input_def
          split: if_splits prod.splits cong: weak_congs)
qed

text \<open>\<open>leanloader_load\<close> returns once the registry is ready with every entry point
  resolved, or has failed to become ready.\<close>

lemma load_returns_after_init:
  assumes i: "leanloader_env_init H s = Some (r1, s1)" and "r1 = 0 \<or> all_resolved (env s1)"
  shows "leanloader_load H info s \<noteq> None"
proof (cases "r1 = 0")
  case True
  then show ?thesis unfolding leanloader_load_def i by (simp add: Let_def)
next
  case False
  with assms(2) have "all_resolved (env s1)" by simp
  then have nz: "GdipCreateBitmapFromFile (env s1) \<noteq> 0" "GdipGetImageWidth (env s1) \<noteq> 0"
    "GdipGetImageHeight (env s1) \<noteq> 0" "GlobalAlloc (env s1) \<noteq> 0"
    "GdipBitmapLockBits (env s1) \<noteq> 0" "GlobalFree (env s1) \<noteq> 0"
    "GdipDisposeImage (env s1) \<noteq> 0"
    by (simp_all add: all_resolved_def)
  show ?thesis
    unfolding leanloader_load_def i using False
    by (simp add: Let_def native_defs nz split: prod.splits if_splits cong: weak_congs)
qed

lemma load_returns:
  assumes "refcnt (env s) = 0 \<and> (\<forall>i m. host_get_getprocaddress H i m \<noteq> 0) \<and>
             (\<forall>i m n. host_GetProcAddress H i m n \<noteq> 0) \<or>
           refcnt (env s) \<noteq> 0 \<and> all_resolved (env s)"
  shows "leanloader_load H info s \<noteq> None"
proof (cases "refcnt (env s) = 0")
  case True
  with assms have "\<forall>i m. host_get_getprocaddress H i m \<noteq> 0"
    and "\<forall>i m n. host_GetProcAddress H i m n \<noteq> 0" by auto
  from env_init_resolving [OF True this] obtain r s' where
    "leanloader_env_init H s = Some (r, s')" "r = 0 \<or> all_resolved (env s')" by blast
  then show ?thesis by (rule load_returns_after_init)
next
  case False
  with assms have a: "all_resolved (env s)" by auto
  show ?thesis
  proof (rule load_returns_after_init)
    show "leanloader_env_init H s =
        Some (refcnt (env s) + 1, s\<lparr>env := (env s)\<lparr>refcnt := refcnt (env s) + 1\<rparr>\<rparr>)"
      by (rule env_init_ready [OF False])
    show "refcnt (env s) + 1 = 0 \<or>
        all_resolved (env (s\<lparr>env := (env s)\<lparr>refcnt := refcnt (env s) + 1\<rparr>\<rparr>))"
      using a by (simp add: all_resolved_def)
  qed
qed

text \<open>
  C1, as amended. When \<open>leanloader_load\<close> fails after the registry has become ready (at the
  decode, measure, allocate or lock stage), the registry's count after the call is its
  value before the call plus one: no failure path of \<open>leanloader_load\<close> releases the
  reference taken in stage 1. It is held until \<open>leanloader_dispose\<close> is called.
\<close>

theorem failed_load_keeps_reference:
  assumes "leanloader_env_init H s = Some (r1, s1)" and "r1 \<noteq> 0"
    and "leanloader_load H info s = Some ((0, info'), s')"
  shows "refcnt (env s') = refcnt (env s) + 1 \<and>
         unat (refcnt (env s')) = unat (refcnt (env s)) + 1"
proof -
  from load_paths [OF assms(3)] assms(1) have "env s' = env s1" by auto
  moreover from env_init_Some [OF assms(1)] assms(2)
  have "refcnt (env s1) = refcnt (env s) + 1" and "refcnt (env s) + 1 \<noteq> 0" by auto
  ultimately show ?thesis using unatSuc [of "refcnt (env s)"] by (simp add: add.commute)
qed

lemma init_nofile: "leanloader_env_init host_nofile state_init = Some (1, state_ready)"
  by (simp add: leanloader_env_init_def Let_def native_defs fixture_defs cong: weak_congs)

lemma load_nofile:
  "leanloader_load host_nofile info_zero state_init =
     Some ((0, info_zero),
           \<lparr>env = env_ready, calls = calls_bind_ok @ [Call_GdipCreateBitmapFromFile [0x61] 10 0]\<rparr>)"
  unfolding leanloader_load_def init_nofile
  by (simp add: Let_def native_defs fixture_defs load_consts cong: weak_congs)

theorem failed_load_keeps_reference_witness:
  "refcnt (env state_init) = 0 \<and> refcnt env_ready = 1 \<and> unat (refcnt env_ready) = 1"
  using failed_load_keeps_reference [OF init_nofile _ load_nofile]
  by (simp add: state_init_def env0_def env_ready_def)

text \<open>
  C1 as stated fails when the file is not found: the decode stage fails, \<open>leanloader_load\<close>
  returns 0, and the count has gone from 0 to 1.
\<close>

theorem failed_decode_leaves_count_raised:
  "leanloader_load host_nofile info_zero state_init =
     Some ((0, info_zero),
           \<lparr>env = env_ready, calls = calls_bind_ok @ [Call_GdipCreateBitmapFromFile [0x61] 10 0]\<rparr>) \<and>
   refcnt (env state_init) = 0 \<and>
   refcnt (env \<lparr>env = env_ready,
                calls = calls_bind_ok @ [Call_GdipCreateBitmapFromFile [0x61] 10 0]\<rparr>) = 1"
  using load_nofile by (simp add: state_init_def env0_def env_ready_def)





lemma init_nolock: "leanloader_env_init host_nolock state_init = Some (1, state_ready)"
  by (simp add: leanloader_env_init_def Let_def native_defs fixture_defs cong: weak_congs)

lemma load_nolock:
  "leanloader_load host_nolock info_zero state_init = Some ((0, info_ok), state_nolock)"
  unfolding leanloader_load_def init_nolock
  by (simp add: Let_def native_defs fixture_defs load_consts cong: weak_congs)

text \<open>
  C3 fails on the code. On \<open>host_nolock\<close> the lock stage fails: \<open>leanloader_load\<close> frees the
  buffer, disposes the image and returns 0, but leaves \<open>gpbitmap\<close> (600) and \<open>bd.ptr\<close> (400)
  in the handle. \<open>leanloader_dispose\<close> on that handle then calls unlock-bits, raw-free and
  dispose-image on them again.
\<close>

theorem dispose_after_failed_lock_frees_again:
  "leanloader_load host_nolock info_zero state_init = Some ((0, info_ok), state_nolock) \<and>
   gpbitmap info_ok = 600 \<and> bd_ptr (bd info_ok) = 400 \<and>
   leanloader_dispose host_nolock info_ok state_nolock =
     Some ((0, info_ok\<lparr>bd := bd_ok\<lparr>bd_ptr := 0\<rparr>, gpbitmap := 0\<rparr>),
           \<lparr>env = env_ready\<lparr>refcnt := 0\<rparr>,
            calls = calls_bind_ok @ calls_load_nolock @
              [Call_GdipBitmapUnlockBits 600 bd_ok 0 bd_ok, Call_GlobalFree 400,
               Call_GdipDisposeImage 600, Call_GdiplusShutdown 500, Call_FreeLibrary 300]\<rparr>)"
proof -
  have "leanloader_dispose host_nolock info_ok state_nolock =
     Some ((0, info_ok\<lparr>bd := bd_ok\<lparr>bd_ptr := 0\<rparr>, gpbitmap := 0\<rparr>),
           \<lparr>env = env_ready\<lparr>refcnt := 0\<rparr>,
            calls = calls_bind_ok @ calls_load_nolock @
              [Call_GdipBitmapUnlockBits 600 bd_ok 0 bd_ok, Call_GlobalFree 400,
               Call_GdipDisposeImage 600, Call_GdiplusShutdown 500, Call_FreeLibrary 300]\<rparr>)"
    by (simp add: leanloader_dispose_def leanloader_env_deinit_def Let_def native_defs
          state_nolock_def info_ok_def env_ready_def host_nolock_def host_ok_def bd_ok_def
          cong: weak_congs)
  with load_nolock show ?thesis by (simp add: info_ok_def bd_ok_def)
qed

text \<open>
  C4 fails on the code, by the same omission. After the failed lock on \<open>host_nolock\<close> the
  handle returned by \<open>leanloader_load\<close> has a non-null \<open>bd.ptr\<close>, although the one lock-bits
  call answered status 2 and the buffer has been handed to raw-free.
\<close>

theorem failed_lock_leaves_buffer_pointer:
  "leanloader_load host_nolock info_zero state_init = Some ((0, info_ok), state_nolock) \<and>
   bd_ptr (bd info_ok) = 400 \<and>
   new_calls state_ready state_nolock = calls_measure_ok @
     [Call_GdipBitmapLockBits 600 (lock_rect 10 10) 7 0x0026200a bd_ok 2 bd_ok,
      Call_GlobalFree 400,
      Call_GdipDisposeImage 600]"
  using load_nolock
  by (simp add: info_ok_def bd_ok_def new_calls_def state_ready_def state_nolock_def
        calls_load_nolock_def)

section \<open>The allocation size\<close>

lemma and_not_63: "unat (x AND NOT 63) = unat x div 64 * 64" for x :: "32 word"
proof -
  have m: "(63 :: 32 word) = mask 6" by (simp add: mask_eq_exp_minus_1)
  have "x AND NOT (mask 6) = push_bit 6 (drop_bit 6 x)"
    by (rule bit_eqI) (auto simp: bit_simps)
  then have "unat (x AND NOT 63) = unat (push_bit 6 (drop_bit 6 x))"
    by (simp add: m)
  also have "\<dots> = take_bit 32 (push_bit 6 (drop_bit 6 (unat x)))"
    by (simp add: unsigned_push_bit_eq unat_drop_bit_eq)
  also have "\<dots> = unat x div 64 * 64"
  proof -
    have "unat x div 64 * 64 \<le> unat x" by simp
    also have "unat x < 2 ^ 32" using unsigned_less [of x] by simp
    finally show ?thesis
      by (simp add: push_bit_eq_mult drop_bit_eq_div take_bit_eq_mod)
  qed
  finally show ?thesis .
qed

lemma unat_pixels: "unat (w * h * 4) = unat w * unat h * 4 mod 2 ^ 32" for w h :: "32 word"
  by (simp add: unat_word_ariths mod_simps)

lemma allocSize_unat:
  "unat (allocSize w h) = ((unat w * unat h * 4 mod 2 ^ 32 + 63) mod 2 ^ 32) div 64 * 64"
  unfolding allocSize_def and_not_63
  by (simp add: unat_word_ariths(1) unat_pixels)


lemma allocSize_small:
  assumes "2 ^ 32 \<le> unat w * unat h * 4"
  shows "unat (allocSize w h) < unat w * unat h * 4"
proof -
  have a: "unat (allocSize w h) < 2 ^ 32" using unsigned_less [of "allocSize w h"] by simp
  show ?thesis by (rule less_le_trans [OF a assms])
qed

lemma allocSize_word:
  "allocSize w h = (word_of_nat (unat w * unat h * 4 mod 2 ^ 32) + 63) AND NOT 63"
proof -
  have "(word_of_nat (unat w * unat h * 4 mod 2 ^ 32) :: 32 word) = word_of_nat (unat (w * h * 4))"
    by (simp only: unat_pixels)
  then show ?thesis by (simp add: allocSize_def)
qed


lemma load_new_calls:
  assumes "leanloader_load H info s = Some ((r, info'), s')"
  shows "\<exists>cs0 cs. new_calls s s' = cs0 @ cs \<and> list_all is_binding cs0 \<and>
           (cs = [] \<and> r = 0 \<or> load_path info r info' cs)"
proof -
  from load_paths [OF assms] obtain r1 s1 where
    i: "leanloader_env_init H s = Some (r1, s1)" and
    c: "if r1 = 0 then r = 0 \<and> info' = info\<lparr>gpbitmap := 0\<rparr> \<and> s' = s1
        else \<exists>cs. calls s' = calls s1 @ cs \<and> load_path info r info' cs"
    by blast
  from env_init_Some [OF i] obtain cs0 where
    cs0: "calls s1 = calls s @ cs0" "list_all is_binding cs0" by blast
  show ?thesis
  proof (cases "r1 = 0")
    case True
    with c cs0 show ?thesis by (auto simp: new_calls_def)
  next
    case False
    with c obtain cs where "calls s' = calls s1 @ cs" "load_path info r info' cs" by auto
    with cs0 show ?thesis by (auto simp: new_calls_def)
  qed
qed



lemma init_huge: "leanloader_env_init host_huge state_init = Some (1, state_ready)"
  by (simp add: leanloader_env_init_def Let_def native_defs fixture_defs cong: weak_congs)

lemma load_huge:
  "leanloader_load host_huge info_zero state_init =
     Some ((1, info_ok\<lparr>bd := bd_ok\<lparr>bd_w := 40000, bd_h := 40000, bd_stride := 160000\<rparr>\<rparr>),
           \<lparr>env = env_ready,
            calls = calls_bind_ok @
              [Call_GdipCreateBitmapFromFile [0x61] 0 600,
               Call_GdipGetImageWidth 600 0 40000,
               Call_GdipGetImageHeight 600 0 40000,
               Call_GlobalAlloc 0x40 2105032704 400,
               Call_GdipBitmapLockBits 600 (lock_rect 40000 40000) 7 0x0026200a
                 (bd_ok\<lparr>bd_w := 40000, bd_h := 40000, bd_stride := 160000\<rparr>) 0
                 (bd_ok\<lparr>bd_w := 40000, bd_h := 40000, bd_stride := 160000\<rparr>)]\<rparr>)"
  unfolding leanloader_load_def init_huge
  by (simp add: Let_def native_defs fixture_defs load_consts cong: weak_congs)


text \<open>
  C10. \<open>leanloader_load\<close> returns on a ready, resolved registry and on a first
  initialization where every symbol resolves. Whenever its measure stage succeeds with
  width \<open>w\<close> and height \<open>h\<close> it calls the raw allocator with \<open>allocSize w h\<close>, and every
  size it passes to the raw allocator is of that form: \<open>(w * h * 4 + 63) & ~63\<close> computed
  in unsigned 32-bit wrap-around arithmetic, with no overflow check. That value is the
  rounding of \<open>4 w h mod 2^32\<close>, and when \<open>4 w h\<close> is \<open>2^32\<close> or more it is strictly smaller
  than the pixel data.
\<close>

theorem alloc_size_wraps:
  "(refcnt (env s) = 0 \<and> (\<forall>i m. host_get_getprocaddress H i m \<noteq> 0) \<and>
      (\<forall>i m n. host_GetProcAddress H i m n \<noteq> 0) \<or>
    refcnt (env s) \<noteq> 0 \<and> all_resolved (env s) \<longrightarrow>
      leanloader_load H info s \<noteq> None) \<and>
   (\<forall>r info' s'.
      leanloader_load H info s = Some ((r, info'), s') \<longrightarrow>
        (\<forall>b h. Call_GdipGetImageHeight b 0 h \<in> set (new_calls s s') \<longrightarrow>
           (\<exists>w a. Call_GdipGetImageWidth b 0 w \<in> set (new_calls s s') \<and>
                  Call_GlobalAlloc GPTR (allocSize w h) a \<in> set (new_calls s s'))) \<and>
        (\<forall>f n a. Call_GlobalAlloc f n a \<in> set (new_calls s s') \<longrightarrow>
           (\<exists>b w h. Call_GdipGetImageWidth b 0 w \<in> set (new_calls s s') \<and>
              Call_GdipGetImageHeight b 0 h \<in> set (new_calls s s') \<and>
              f = GPTR \<and> n = allocSize w h \<and>
              n = (word_of_nat (unat w * unat h * 4 mod 2 ^ 32) + 63) AND NOT 63 \<and>
              unat n = ((unat w * unat h * 4 mod 2 ^ 32 + 63) mod 2 ^ 32) div 64 * 64 \<and>
              (2 ^ 32 \<le> unat w * unat h * 4 \<longrightarrow> unat n < unat w * unat h * 4))))"
proof -
  have tot: "leanloader_load H info s \<noteq> None"
    if "refcnt (env s) = 0 \<and> (\<forall>i m. host_get_getprocaddress H i m \<noteq> 0) \<and>
          (\<forall>i m n. host_GetProcAddress H i m n \<noteq> 0) \<or>
        refcnt (env s) \<noteq> 0 \<and> all_resolved (env s)"
    using that by (rule load_returns)
  have reach: "\<exists>w a. Call_GdipGetImageWidth b 0 w \<in> set (new_calls s s') \<and>
                  Call_GlobalAlloc GPTR (allocSize w h) a \<in> set (new_calls s s')"
    if l: "leanloader_load H info s = Some ((r, info'), s')"
      and m: "Call_GdipGetImageHeight b 0 h \<in> set (new_calls s s')"
    for r info' s' b h
  proof -
    from load_new_calls [OF l] obtain cs0 cs where
      n: "new_calls s s' = cs0 @ cs" and bi: "list_all is_binding cs0"
      and p: "cs = [] \<and> r = 0 \<or> load_path info r info' cs" by blast
    from bi have "Call_GdipGetImageHeight b 0 h \<notin> set cs0" by (auto simp: list_all_iff)
    with m n have mc: "Call_GdipGetImageHeight b 0 h \<in> set cs" by simp
    with p have "load_path info r info' cs" by auto
    then obtain w a where
      "Call_GdipGetImageWidth b 0 w \<in> set cs" "Call_GlobalAlloc GPTR (allocSize w h) a \<in> set cs"
      using mc by (cases rule: load_path.cases) auto
    with n show ?thesis by auto
  qed
  have form: "\<exists>b w h. Call_GdipGetImageWidth b 0 w \<in> set (new_calls s s') \<and>
              Call_GdipGetImageHeight b 0 h \<in> set (new_calls s s') \<and>
              f = GPTR \<and> n = allocSize w h \<and>
              n = (word_of_nat (unat w * unat h * 4 mod 2 ^ 32) + 63) AND NOT 63 \<and>
              unat n = ((unat w * unat h * 4 mod 2 ^ 32 + 63) mod 2 ^ 32) div 64 * 64 \<and>
              (2 ^ 32 \<le> unat w * unat h * 4 \<longrightarrow> unat n < unat w * unat h * 4)"
    if l: "leanloader_load H info s = Some ((r, info'), s')"
      and m0: "Call_GlobalAlloc f n a \<in> set (new_calls s s')"
    for r info' s' f n a
  proof -
    from load_new_calls [OF l] obtain cs0 cs where
      nc: "new_calls s s' = cs0 @ cs" and b: "list_all is_binding cs0"
      and p: "cs = [] \<and> r = 0 \<or> load_path info r info' cs" by blast
    from b have "Call_GlobalAlloc f n a \<notin> set cs0" by (auto simp: list_all_iff)
    with m0 nc have m: "Call_GlobalAlloc f n a \<in> set cs" by simp
    with p have "load_path info r info' cs" by auto
    then obtain b w h where
      "Call_GdipGetImageWidth b 0 w \<in> set cs" "Call_GdipGetImageHeight b 0 h \<in> set cs"
      "f = GPTR" "n = allocSize w h"
      using m by (cases rule: load_path.cases) auto
    then show ?thesis
      using nc allocSize_word [of w h] allocSize_unat [of w h] allocSize_small [of w h]
      by (intro exI [of _ b] exI [of _ w] exI [of _ h]) simp
  qed
  show ?thesis
  proof (rule conjI)
    show "refcnt (env s) = 0 \<and> (\<forall>i m. host_get_getprocaddress H i m \<noteq> 0) \<and>
        (\<forall>i m n. host_GetProcAddress H i m n \<noteq> 0) \<or>
      refcnt (env s) \<noteq> 0 \<and> all_resolved (env s) \<longrightarrow>
        leanloader_load H info s \<noteq> None"
      using tot by (rule impI)
    show "\<forall>r info' s'.
      leanloader_load H info s = Some ((r, info'), s') \<longrightarrow>
        (\<forall>b h. Call_GdipGetImageHeight b 0 h \<in> set (new_calls s s') \<longrightarrow>
           (\<exists>w a. Call_GdipGetImageWidth b 0 w \<in> set (new_calls s s') \<and>
                  Call_GlobalAlloc GPTR (allocSize w h) a \<in> set (new_calls s s'))) \<and>
        (\<forall>f n a. Call_GlobalAlloc f n a \<in> set (new_calls s s') \<longrightarrow>
           (\<exists>b w h. Call_GdipGetImageWidth b 0 w \<in> set (new_calls s s') \<and>
              Call_GdipGetImageHeight b 0 h \<in> set (new_calls s s') \<and>
              f = GPTR \<and> n = allocSize w h \<and>
              n = (word_of_nat (unat w * unat h * 4 mod 2 ^ 32) + 63) AND NOT 63 \<and>
              unat n = ((unat w * unat h * 4 mod 2 ^ 32 + 63) mod 2 ^ 32) div 64 * 64 \<and>
              (2 ^ 32 \<le> unat w * unat h * 4 \<longrightarrow> unat n < unat w * unat h * 4)))"
    proof (rule allI, rule allI, rule allI, rule impI, rule conjI)
      fix r info' s'
      assume l: "leanloader_load H info s = Some ((r, info'), s')"
      show "\<forall>b h. Call_GdipGetImageHeight b 0 h \<in> set (new_calls s s') \<longrightarrow>
           (\<exists>w a. Call_GdipGetImageWidth b 0 w \<in> set (new_calls s s') \<and>
                  Call_GlobalAlloc GPTR (allocSize w h) a \<in> set (new_calls s s'))"
        using reach [OF l] by (intro allI impI)
      show "\<forall>f n a. Call_GlobalAlloc f n a \<in> set (new_calls s s') \<longrightarrow>
           (\<exists>b w h. Call_GdipGetImageWidth b 0 w \<in> set (new_calls s s') \<and>
              Call_GdipGetImageHeight b 0 h \<in> set (new_calls s s') \<and>
              f = GPTR \<and> n = allocSize w h \<and>
              n = (word_of_nat (unat w * unat h * 4 mod 2 ^ 32) + 63) AND NOT 63 \<and>
              unat n = ((unat w * unat h * 4 mod 2 ^ 32 + 63) mod 2 ^ 32) div 64 * 64 \<and>
              (2 ^ 32 \<le> unat w * unat h * 4 \<longrightarrow> unat n < unat w * unat h * 4))"
        using form [OF l] by (intro allI impI)
    qed
  qed
qed

theorem alloc_size_wraps_witness:
  "refcnt (env state_init) = 0 \<and>
   (\<forall>i m. host_get_getprocaddress host_huge i m \<noteq> 0) \<and>
   (\<forall>i m n. host_GetProcAddress host_huge i m n \<noteq> 0) \<and>
   leanloader_load host_huge info_zero state_init =
     Some ((1, info_ok\<lparr>bd := bd_ok\<lparr>bd_w := 40000, bd_h := 40000, bd_stride := 160000\<rparr>\<rparr>),
           \<lparr>env = env_ready,
            calls = calls_bind_ok @
              [Call_GdipCreateBitmapFromFile [0x61] 0 600,
               Call_GdipGetImageWidth 600 0 40000,
               Call_GdipGetImageHeight 600 0 40000,
               Call_GlobalAlloc 0x40 2105032704 400,
               Call_GdipBitmapLockBits 600 (lock_rect 40000 40000) 7 0x0026200a
                 (bd_ok\<lparr>bd_w := 40000, bd_h := 40000, bd_stride := 160000\<rparr>) 0
                 (bd_ok\<lparr>bd_w := 40000, bd_h := 40000, bd_stride := 160000\<rparr>)]\<rparr>) \<and>
   Call_GdipGetImageHeight 600 0 40000 \<in> set (new_calls state_init
      \<lparr>env = env_ready,
       calls = calls_bind_ok @
         [Call_GdipCreateBitmapFromFile [0x61] 0 600,
          Call_GdipGetImageWidth 600 0 40000,
          Call_GdipGetImageHeight 600 0 40000,
          Call_GlobalAlloc 0x40 2105032704 400,
          Call_GdipBitmapLockBits 600 (lock_rect 40000 40000) 7 0x0026200a
            (bd_ok\<lparr>bd_w := 40000, bd_h := 40000, bd_stride := 160000\<rparr>) 0
            (bd_ok\<lparr>bd_w := 40000, bd_h := 40000, bd_stride := 160000\<rparr>)]\<rparr>) \<and>
   Call_GlobalAlloc 0x40 2105032704 400 \<in> set (new_calls state_init
      \<lparr>env = env_ready,
       calls = calls_bind_ok @
         [Call_GdipCreateBitmapFromFile [0x61] 0 600,
          Call_GdipGetImageWidth 600 0 40000,
          Call_GdipGetImageHeight 600 0 40000,
          Call_GlobalAlloc 0x40 2105032704 400,
          Call_GdipBitmapLockBits 600 (lock_rect 40000 40000) 7 0x0026200a
            (bd_ok\<lparr>bd_w := 40000, bd_h := 40000, bd_stride := 160000\<rparr>) 0
            (bd_ok\<lparr>bd_w := 40000, bd_h := 40000, bd_stride := 160000\<rparr>)]\<rparr>) \<and>
   allocSize 40000 40000 = 2105032704 \<and>
   (2 :: nat) ^ 32 \<le> unat (40000 :: u32) * unat (40000 :: u32) * 4 \<and>
   unat (allocSize 40000 40000) < unat (40000 :: u32) * unat (40000 :: u32) * 4"
proof -
  let ?S = "\<lparr>env = env_ready,
       calls = calls_bind_ok @
         [Call_GdipCreateBitmapFromFile [0x61] 0 600,
          Call_GdipGetImageWidth 600 0 40000,
          Call_GdipGetImageHeight 600 0 40000,
          Call_GlobalAlloc 0x40 2105032704 400,
          Call_GdipBitmapLockBits 600 (lock_rect 40000 40000) 7 0x0026200a
            (bd_ok\<lparr>bd_w := 40000, bd_h := 40000, bd_stride := 160000\<rparr>) 0
            (bd_ok\<lparr>bd_w := 40000, bd_h := 40000, bd_stride := 160000\<rparr>)]\<rparr>"
  have c: "refcnt (env state_init) = 0 \<and> (\<forall>i m. host_get_getprocaddress host_huge i m \<noteq> 0) \<and>
      (\<forall>i m n. host_GetProcAddress host_huge i m n \<noteq> 0) \<or>
    refcnt (env state_init) \<noteq> 0 \<and> all_resolved (env state_init)"
    by (simp add: state_init_def env0_def host_huge_def host_ok_def)
  have mh: "Call_GdipGetImageHeight 600 0 40000 \<in> set (new_calls state_init ?S)"
    by (simp add: new_calls_def state_init_def)
  have ma: "Call_GlobalAlloc 0x40 2105032704 400 \<in> set (new_calls state_init ?S)"
    by (simp add: new_calls_def state_init_def)
  note t = alloc_size_wraps [of state_init host_huge info_zero]
  note t1 = t [THEN conjunct1, rule_format, OF c]
  note t2 = t [THEN conjunct2, rule_format, OF load_huge, THEN conjunct1, rule_format, OF mh]
  note t3 = t [THEN conjunct2, rule_format, OF load_huge, THEN conjunct2, rule_format, OF ma]
  have v: "allocSize 40000 40000 = 2105032704"
    "(2 :: nat) ^ 32 \<le> unat (40000 :: u32) * unat (40000 :: u32) * 4"
    "unat (allocSize 40000 40000) < unat (40000 :: u32) * unat (40000 :: u32) * 4"
    by (simp_all add: allocSize_def)
  have h: "refcnt (env state_init) = 0" "\<forall>i m. host_get_getprocaddress host_huge i m \<noteq> 0"
    "\<forall>i m n. host_GetProcAddress host_huge i m n \<noteq> 0"
    by (simp_all add: state_init_def env0_def host_huge_def host_ok_def)
  from t1 t2 t3 h load_huge mh ma v show ?thesis by (intro conjI)
qed

section \<open>Overlapping sessions\<close>

lemma startups_append: "startups (xs @ ys) = startups xs + startups ys"
  by (simp add: startups_def)

lemma shutdowns_append: "shutdowns (xs @ ys) = shutdowns xs + shutdowns ys"
  by (simp add: shutdowns_def)







end
